theory Spec2Isabelle
  imports Complex_Main
begin

section \<open>Text-to-speech core of mycroft-core: \<open>mycroft/tts/__init__.py\<close>\<close>

text \<open>
  The module is Python 2 (\<open>from Queue import Queue\<close>): a \<open>str\<close> is a byte string, modelled
  as \<open>string\<close>; \<open>None\<close> is modelled by \<open>option\<close>. Wall-clock time (\<open>time()\<close>, \<open>sleep\<close>)
  is an explicit clock of type \<open>rat\<close> that only \<open>sleep\<close>, a timed-out \<open>Queue.get\<close> and
  \<open>communicate\<close> advance; every other statement takes no time.
\<close>

subsection \<open>Exceptions\<close>

datatype error =
    NameError string
  | UnboundLocalError string
  | AttributeError string
  | OSError string
  | BackendError string

subsection \<open>The file system, as far as the module looks at it\<close>

text \<open>
  \<open>files\<close> are the regular files with their contents, \<open>dirs\<close> the directories;
  \<open>writable p\<close> says that \<open>open(p, "w")\<close> succeeds, \<open>readable p\<close> that \<open>open(p, "r")\<close> does.
\<close>

record filesys =
  files :: "string \<Rightarrow> string option"
  dirs :: "string \<Rightarrow> bool"
  writable :: "string \<Rightarrow> bool"
  readable :: "string \<Rightarrow> bool"

text \<open>\<open>os.path.exists\<close> and \<open>os.path.isdir\<close>; the empty path names nothing.\<close>

definition exists :: "filesys \<Rightarrow> string \<Rightarrow> bool" where
  "exists f p = (p \<noteq> [] \<and> (files f p \<noteq> None \<or> dirs f p))"

definition isdir :: "filesys \<Rightarrow> string \<Rightarrow> bool" where
  "isdir f p = (p \<noteq> [] \<and> dirs f p)"

text \<open>\<open>with open(p, "w") as h: h.write(data)\<close>: \<open>None\<close> when the open raises.\<close>

definition open_write :: "filesys \<Rightarrow> string \<Rightarrow> string \<Rightarrow> filesys option" where
  "open_write f p data =
     (if writable f p then Some (f\<lparr>files := (files f)(p \<mapsto> data)\<rparr>) else None)"

text \<open>\<open>with open(p, "r") as h: h.read()\<close>: \<open>None\<close> when the open raises.\<close>

definition open_read :: "filesys \<Rightarrow> string \<Rightarrow> string option" where
  "open_read f p = (if readable f p then files f p else None)"

text \<open>\<open>os.path.join(a, b)\<close> of posixpath.\<close>

definition path_join :: "string \<Rightarrow> string \<Rightarrow> string" where
  "path_join a b =
     (if b \<noteq> [] \<and> hd b = CHR ''/'' then b
      else if a = [] \<or> last a = CHR ''/'' then a @ b
      else a @ ''/'' @ b)"

text \<open>
  \<open>os.path.dirname(p)\<close> of posixpath: the head up to and including the last slash, with
  its trailing slashes removed unless it consists of slashes only.
\<close>

definition rstrip_slash :: "string \<Rightarrow> string" where
  "rstrip_slash p = rev (dropWhile (\<lambda>c. c = CHR ''/'') (rev p))"

definition dirname :: "string \<Rightarrow> string" where
  "dirname p =
     (let hd_part = rev (dropWhile (\<lambda>c. c \<noteq> CHR ''/'') (rev p))
      in if hd_part \<noteq> [] \<and> \<not> list_all (\<lambda>c. c = CHR ''/'') hd_part
         then rstrip_slash hd_part else hd_part)"

definition endswith :: "string \<Rightarrow> string \<Rightarrow> bool" where
  "endswith s suf = (length suf \<le> length s \<and> drop (length s - length suf) s = suf)"

text \<open>\<open>str.strip()\<close>: the whitespace of a Python 2 byte string.\<close>

definition isspace :: "char \<Rightarrow> bool" where
  "isspace c = (c = CHR '' '' \<or> c = CHR 0x09 \<or> c = CHR 0x0A \<or> c = CHR 0x0B
                \<or> c = CHR 0x0C \<or> c = CHR 0x0D)"

definition strip :: "string \<Rightarrow> string" where
  "strip s = rev (dropWhile isspace (rev (dropWhile isspace s)))"

subsection \<open>Playback jobs, the enclosure and the observable trace\<close>

type_synonym viseme = "string \<times> rat"

text \<open>A queue entry \<open>(snd_type, data, visimes)\<close>; \<open>visimes\<close> may be \<open>None\<close>.\<close>

type_synonym job = "string \<times> string \<times> viseme list option"

text \<open>
  The attribute \<open>enclosure\<close> of the playback thread: \<open>PlaybackThread.__init__\<close> does not
  assign it (\<open>Missing\<close>, reading it raises \<open>AttributeError\<close>); \<open>TTS.init\<close> assigns an
  \<open>EnclosureAPI\<close> object (\<open>Api\<close>); \<open>NoneObj\<close> is a falsy value assigned from outside.
\<close>

datatype enclosure_attr = Missing | NoneObj | Api

datatype event =
    Poll string
  | Viseme string
  | Blink
  | Sleep rat
  | PlayWav string
  | PlayMp3 string
  | Communicate

text \<open>What \<open>execute\<close> and \<open>save_phonemes\<close> ask of their collaborators, in order.\<close>

datatype op =
    Synth string string
  | Curate string
  | WritePho string string

subsection \<open>The state\<close>

text \<open>
  \<open>queue\<close> is the one \<open>Queue\<close> object shared by \<open>TTS.queue\<close> and \<open>PlaybackThread.queue\<close>;
  \<open>terminated\<close> and \<open>enclosure\<close> are the attributes of the playback thread; \<open>p_handle\<close> is
  the local variable \<open>p\<close> of \<open>run\<close> (\<open>None\<close>: not yet bound; otherwise the time at which the
  player process ends); \<open>draws\<close> counts the calls of \<open>random.random()\<close>; \<open>trace\<close> lists
  what the playback thread did, each entry with the clock at that moment.
\<close>

record state =
  fs :: filesys
  ops :: "op list"
  queue :: "job list"
  terminated :: bool
  enclosure :: enclosure_attr
  p_handle :: "rat option"
  clock :: rat
  draws :: nat
  trace :: "(rat \<times> event) list"

definition emit :: "event \<Rightarrow> state \<Rightarrow> state" where
  "emit ev s = s\<lparr>trace := trace s @ [(clock s, ev)]\<rparr>"

definition visemes_of :: "(rat \<times> event) list \<Rightarrow> (rat \<times> string) list" where
  "visemes_of tr = concat (map (\<lambda>(t, ev). case ev of Viseme c \<Rightarrow> [(t, c)] | _ \<Rightarrow> []) tr)"

definition polls_of :: "(rat \<times> event) list \<Rightarrow> string list" where
  "polls_of tr = concat (map (\<lambda>(t, ev). case ev of Poll n \<Rightarrow> [n] | _ \<Rightarrow> []) tr)"

definition plays_of :: "(rat \<times> event) list \<Rightarrow> (rat \<times> event) list" where
  "plays_of tr = filter (\<lambda>(t, ev). case ev of PlayWav d \<Rightarrow> True | PlayMp3 d \<Rightarrow> True | _ \<Rightarrow> False) tr"

subsection \<open>Collaborators of the module\<close>

text \<open>
  The environment of the playback thread. \<open>stoppingTTS t\<close> and \<open>buttonPress t\<close> say whether
  \<open>check_for_signal\<close> finds the signal when it is polled at clock \<open>t\<close>;
  \<open>random_random n\<close> is the value of the \<open>n\<close>-th call of \<open>random.random()\<close>;
  \<open>can_play d\<close> says that \<open>play_wav\<close>/\<open>play_mp3\<close> can start a player for artifact \<open>d\<close>,
  and \<open>audio_len d\<close> is how long that player runs.
\<close>

record env =
  stoppingTTS :: "rat \<Rightarrow> bool"
  buttonPress :: "rat \<Rightarrow> bool"
  random_random :: "nat \<Rightarrow> rat"
  can_play :: "string \<Rightarrow> bool"
  audio_len :: "string \<Rightarrow> rat"

text \<open>
  What a concrete engine supplies to \<open>TTS\<close>: \<open>tts_type\<close> is \<open>self.type\<close>,
  \<open>cache_directory\<close> is \<open>mycroft.util.get_cache_directory("tts")\<close>, \<open>md5_hexdigest\<close> is
  \<open>hashlib.md5(sentence.encode('utf-8', 'ignore')).hexdigest()\<close>, \<open>get_tts\<close> and \<open>visime\<close>
  are the methods an engine overrides (\<open>get_tts\<close> works on the file system, and may raise
  after it has touched it), \<open>curate_cache\<close> is \<open>mycroft.util.curate_cache\<close>.
\<close>

record backend =
  tts_type :: string
  cache_directory :: string
  md5_hexdigest :: "string \<Rightarrow> string"
  get_tts :: "string \<Rightarrow> string \<Rightarrow> filesys \<Rightarrow> (error + string \<times> string option) \<times> filesys"
  visime :: "string option \<Rightarrow> viseme list option"
  curate_cache :: "string \<Rightarrow> filesys \<Rightarrow> filesys"

subsection \<open>The synthesis cache: \<open>save_phonemes\<close>, \<open>load_phonemes\<close>, \<open>clear_cache\<close>\<close>

definition save_phonemes :: "backend \<Rightarrow> string \<Rightarrow> string \<Rightarrow> state \<Rightarrow> state" where
  "save_phonemes b key phonemes s =
     (let cache_dir = cache_directory b;
          s1 = s\<lparr>fs := curate_cache b cache_dir (fs s), ops := ops s @ [Curate cache_dir]\<rparr>;
          pho_file = path_join cache_dir (key @ ''.pho'')
      in case open_write (fs s1) pho_file phonemes of
           Some f \<Rightarrow> s1\<lparr>fs := f, ops := ops s1 @ [WritePho pho_file phonemes]\<rparr>
         | None \<Rightarrow> s1)"

definition load_phonemes :: "backend \<Rightarrow> string \<Rightarrow> state \<Rightarrow> string option" where
  "load_phonemes b key s =
     (let pho_file = path_join (cache_directory b) (key @ ''.pho'')
      in if exists (fs s) pho_file
         then (case open_read (fs s) pho_file of
                 Some content \<Rightarrow> Some (strip content)
               | None \<Rightarrow> None)
         else None)"

text \<open>
  \<open>f\<close> is an entry of \<open>os.listdir(d)\<close> whose \<open>os.path.join(d, f)\<close> is \<open>p\<close>: a name
  without a slash.
\<close>

definition listed_in :: "string \<Rightarrow> string \<Rightarrow> bool" where
  "listed_in d p =
     (let pre = (if d = [] \<or> last d = CHR ''/'' then d else d @ ''/'');
          f = drop (length pre) p
      in take (length pre) p = pre \<and> f \<noteq> [] \<and> CHR ''/'' \<notin> set f)"

text \<open>
  \<open>clear_cache\<close>: nothing to do when the cache directory does not exist; \<open>os.listdir\<close>
  raises when the path is not a directory; otherwise every regular file directly under
  it is unlinked (directories stay).
\<close>

definition clear_cache :: "backend \<Rightarrow> state \<Rightarrow> error option \<times> state" where
  "clear_cache b s =
     (let d = cache_directory b
      in if \<not> exists (fs s) d then (None, s)
         else if \<not> isdir (fs s) d then (Some (OSError ''listdir''), s)
         else (None,
               s\<lparr>fs := (fs s)\<lparr>files := (\<lambda>p. if listed_in d p then None else files (fs s) p)\<rparr>\<rparr>))"

subsection \<open>\<open>TTS.execute\<close>\<close>

definition queue_put :: "job \<Rightarrow> state \<Rightarrow> state" where
  "queue_put j s = s\<lparr>queue := queue s @ [j]\<rparr>"

definition wav_path :: "backend \<Rightarrow> string \<Rightarrow> string" where
  "wav_path b sentence =
     path_join (cache_directory b) (md5_hexdigest b sentence @ tts_type b)"

definition execute :: "backend \<Rightarrow> string \<Rightarrow> state \<Rightarrow> error option \<times> state" where
  "execute b sentence s =
     (let key = md5_hexdigest b sentence;
          wav_file = path_join (cache_directory b) (key @ tts_type b)
      in if exists (fs s) wav_file
         then (let phonemes = load_phonemes b key s
               in (None, queue_put (tts_type b, wav_file, visime b phonemes) s))
         else (let sc = s\<lparr>ops := ops s @ [Synth sentence wav_file]\<rparr>
               in case get_tts b sentence wav_file (fs sc) of
                    (Inl err, f) \<Rightarrow> (Some err, sc\<lparr>fs := f\<rparr>)
                  | (Inr (wav_file1, phonemes), f) \<Rightarrow>
                      (let s1 = sc\<lparr>fs := f\<rparr>;
                           s2 = (case phonemes of
                                   None \<Rightarrow> s1
                                 | Some ph \<Rightarrow> if ph \<noteq> [] then save_phonemes b key ph s1 else s1)
                       in (None, queue_put (tts_type b, wav_file1, visime b phonemes) s2))))"


subsection \<open>\<open>PlaybackThread\<close>\<close>

text \<open>
  Modelled from the spec: \<open>mycroft.util.check_for_signal\<close> is not part of this module; the
  spec gives the two interrupt signals as independently settable flags readable at any
  time. A poll reads the flag of the environment at the current clock and is recorded.
\<close>

definition check_for_signal :: "env \<Rightarrow> string \<Rightarrow> state \<Rightarrow> bool \<times> state" where
  "check_for_signal e name s =
     ((if name = ''stoppingTTS'' then stoppingTTS e (clock s)
       else if name = ''buttonPress'' then buttonPress e (clock s)
       else False),
      emit (Poll name) s)"

definition sleep :: "rat \<Rightarrow> state \<Rightarrow> state" where
  "sleep d s = (emit (Sleep d) s)\<lparr>clock := clock s + d\<rparr>"

definition mouth_viseme :: "string \<Rightarrow> state \<Rightarrow> state" where
  "mouth_viseme code s = emit (Viseme code) s"

text \<open>\<open>delta = time() - start; if delta < duration: sleep(duration - delta)\<close>\<close>

definition wait_until :: "rat \<Rightarrow> rat \<Rightarrow> state \<Rightarrow> state" where
  "wait_until start duration s =
     (let delta = clock s - start
      in if delta < duration then sleep (duration - delta) s else s)"

text \<open>
  How the \<open>for\<close> loop of \<open>show_visimes\<close> ends: it ran out of pairs, a \<open>return\<close> left it,
  or an exception did.
\<close>

datatype outcome = Done | Returned | Raised error

fun visime_loop :: "env \<Rightarrow> rat \<Rightarrow> viseme list \<Rightarrow> state \<Rightarrow> outcome \<times> state" where
  "visime_loop e start [] s = (Done, s)"
| "visime_loop e start ((code, duration) # pairs) s =
     (let (stop_seen, s1) = check_for_signal e ''stoppingTTS'' s in
      if stop_seen then (Returned, s1)
      else
        let (button_seen, s2) = check_for_signal e ''buttonPress'' s1 in
        if button_seen then (Returned, s2)
        else
          (case enclosure s2 of
             Missing \<Rightarrow> (Raised (AttributeError ''enclosure''), s2)
           | NoneObj \<Rightarrow> visime_loop e start pairs (wait_until start duration s2)
           | Api \<Rightarrow>
               visime_loop e start pairs (wait_until start duration (mouth_viseme code s2))))"

definition show_visimes :: "env \<Rightarrow> viseme list \<Rightarrow> state \<Rightarrow> error option \<times> state" where
  "show_visimes e pairs s =
     (let start = clock s
      in case visime_loop e start pairs s of
           (Raised x, s') \<Rightarrow> (Some x, s')
         | (Done, s') \<Rightarrow> (None, s')
         | (Returned, s') \<Rightarrow> (None, s'))"

definition blink :: "env \<Rightarrow> rat \<Rightarrow> state \<Rightarrow> error option \<times> state" where
  "blink e rate s =
     (case enclosure s of
        Missing \<Rightarrow> (Some (AttributeError ''enclosure''), s)
      | NoneObj \<Rightarrow> (None, s)
      | Api \<Rightarrow>
          (let r = random_random e (draws s);
               s1 = s\<lparr>draws := Suc (draws s)\<rparr>
           in if r < rate then (None, emit Blink s1) else (None, s1)))"

text \<open>
  \<open>play_wav(data)\<close> and \<open>play_mp3(data)\<close> of \<open>mycroft.util\<close> start a player process and
  return its handle, or raise when the player cannot be started.
\<close>

definition play_wav :: "env \<Rightarrow> string \<Rightarrow> state \<Rightarrow> (error + rat) \<times> state" where
  "play_wav e data s =
     (if can_play e data then (Inr (clock s + audio_len e data), emit (PlayWav data) s)
      else (Inl (OSError ''play_wav''), s))"

definition play_mp3 :: "env \<Rightarrow> string \<Rightarrow> state \<Rightarrow> (error + rat) \<times> state" where
  "play_mp3 e data s =
     (if can_play e data then (Inr (clock s + audio_len e data), emit (PlayMp3 data) s)
      else (Inl (OSError ''play_mp3''), s))"

text \<open>
  Lines 59 to 62 of \<open>run\<close>: only the two known kinds bind \<open>p\<close>; any other kind leaves
  \<open>p\<close> as it was.
\<close>

definition start_playback :: "env \<Rightarrow> string \<Rightarrow> string \<Rightarrow> state \<Rightarrow> error option \<times> state" where
  "start_playback e snd_type data s =
     (if snd_type = ''wav''
      then (case play_wav e data s of
              (Inl x, s') \<Rightarrow> (Some x, s')
            | (Inr h, s') \<Rightarrow> (None, s'\<lparr>p_handle := Some h\<rparr>))
      else if snd_type = ''mp3''
      then (case play_mp3 e data s of
              (Inl x, s') \<Rightarrow> (Some x, s')
            | (Inr h, s') \<Rightarrow> (None, s'\<lparr>p_handle := Some h\<rparr>))
      else (None, s))"

text \<open>\<open>p.communicate()\<close>: waits until the player has ended; \<open>p\<close> may be unbound.\<close>

definition communicate :: "state \<Rightarrow> error option \<times> state" where
  "communicate s =
     (case p_handle s of
        None \<Rightarrow> (Some (UnboundLocalError ''p''), s)
      | Some fin \<Rightarrow> (None, emit Communicate (s\<lparr>clock := max (clock s) fin\<rparr>)))"

text \<open>\<open>if visimes: self.show_visimes(visimes)\<close>: \<open>None\<close> and the empty list are falsy.\<close>

definition show_if_visimes :: "env \<Rightarrow> viseme list option \<Rightarrow> state \<Rightarrow> error option \<times> state" where
  "show_if_visimes e visimes s =
     (case visimes of
        None \<Rightarrow> (None, s)
      | Some pairs \<Rightarrow> if pairs \<noteq> [] then show_visimes e pairs s else (None, s))"

text \<open>The statements of the \<open>try\<close> block after \<open>queue.get\<close> has delivered a job.\<close>

definition try_body :: "env \<Rightarrow> job \<Rightarrow> state \<Rightarrow> error option \<times> state" where
  "try_body e job s =
     (case job of (snd_type, data, visimes) \<Rightarrow>
        (case blink e (1/2) s of
           (Some x, s1) \<Rightarrow> (Some x, s1)
         | (None, s1) \<Rightarrow>
        (case start_playback e snd_type data s1 of
           (Some x, s2) \<Rightarrow> (Some x, s2)
         | (None, s2) \<Rightarrow>
        (case show_if_visimes e visimes s2 of
           (Some x, s3) \<Rightarrow> (Some x, s3)
         | (None, s3) \<Rightarrow>
        (case communicate s3 of
           (Some x, s4) \<Rightarrow> (Some x, s4)
         | (None, s4) \<Rightarrow> blink e (1/5) s4)))))"

text \<open>
  One pass through the body of \<open>while not self._terminated\<close>: \<open>queue.get(timeout=2)\<close>
  raises \<open>Empty\<close> after two seconds on an empty queue; \<open>except: pass\<close> swallows every
  exception, keeping what the body did before it.
\<close>

definition run_iter :: "env \<Rightarrow> state \<Rightarrow> state" where
  "run_iter e s =
     (case queue s of
        [] \<Rightarrow> s\<lparr>clock := clock s + 2\<rparr>
      | job # rest \<Rightarrow> snd (try_body e job (s\<lparr>queue := rest\<rparr>)))"

partial_function (option) run_loop :: "env \<Rightarrow> state \<Rightarrow> state option" where
  "run_loop e s = (if terminated s then Some s else run_loop e (run_iter e s))"

text \<open>
  The state of the thread after at most \<open>n\<close> passes through the loop: each pass tests the
  flag and, when it is not set, runs the body once.
\<close>

primrec run_passes :: "nat \<Rightarrow> env \<Rightarrow> state \<Rightarrow> state" where
  "run_passes 0 e s = s"
| "run_passes (Suc n) e s = (if terminated s then s else run_passes n e (run_iter e s))"

definition run :: "env \<Rightarrow> state \<Rightarrow> state option" where
  "run e s = run_loop e (s\<lparr>p_handle := None\<rparr>)"

text \<open>
  \<open>stop\<close>: the loop body names \<open>queue\<close>, which is neither a local nor a global of the
  module (the attribute is \<open>self.queue\<close>), so the first pass of the loop raises.
\<close>

definition stop :: "state \<Rightarrow> error option \<times> state" where
  "stop s =
     (let s1 = s\<lparr>terminated := True\<rparr>
      in if queue s1 \<noteq> [] then (Some (NameError ''queue''), s1) else (None, s1))"

subsection \<open>\<open>TTS.__init__\<close>\<close>

text \<open>
  The attributes of a \<open>TTS\<close> instance; \<open>classes\<close> are the names of the classes it is an
  instance of, \<open>engine\<close> is what its concrete class supplies.
\<close>

record tts =
  lang :: string
  voice :: "string option"
  filename :: "string option"
  classes :: "string list"
  engine :: backend

text \<open>\<open>TTS.init(ws)\<close> hands an \<open>EnclosureAPI\<close> object to the playback thread.\<close>

definition init :: "state \<Rightarrow> state" where
  "init s = s\<lparr>enclosure := Api\<rparr>"

text \<open>\<open>lang or 'en-us'\<close>\<close>

definition or_default :: "string option \<Rightarrow> string \<Rightarrow> string" where
  "or_default x d = (case x of None \<Rightarrow> d | Some v \<Rightarrow> if v = [] then d else v)"

text \<open>
  The constructor assigns the attributes, makes a fresh queue and a fresh playback thread
  (whose \<open>enclosure\<close> attribute is not assigned; the thread then runs \<open>run\<close> on its own),
  and clears the cache. The result is the exception, if \<open>clear_cache\<close> raised one, the
  instance with the attributes as assigned, and the new state.
\<close>

definition tts_init ::
  "backend \<Rightarrow> string list \<Rightarrow> string option \<Rightarrow> string option \<Rightarrow> state
     \<Rightarrow> error option \<times> tts \<times> state" where
  "tts_init b cls lang_arg voice_arg s =
     (let self = \<lparr>lang = or_default lang_arg ''en-us'',
                   voice = voice_arg,
                   filename = Some ''/tmp/tts.wav'',
                   classes = cls,
                   engine = b\<rparr>;
          s1 = s\<lparr>queue := [], terminated := False, enclosure := Missing\<rparr>
      in case clear_cache b s1 of (r, s2) \<Rightarrow> (r, self, s2))"

subsection \<open>\<open>TTSValidator\<close>\<close>

text \<open>
  \<open>get_tts_class\<close> is the name of the class the abstract method returns;
  \<open>validate_lang\<close> and \<open>validate_connection\<close> are the abstract checks of an engine's
  validator, \<open>None\<close> when they pass.
\<close>

record validator =
  v_tts :: tts
  get_tts_class :: string
  validate_lang :: "tts \<Rightarrow> error option"
  validate_connection :: "tts \<Rightarrow> error option"

definition validate_instance :: "validator \<Rightarrow> error option" where
  "validate_instance v =
     (let clazz = get_tts_class v
      in if clazz \<notin> set (classes (v_tts v))
         then Some (AttributeError (''tts must be instance of '' @ clazz))
         else None)"

text \<open>\<open>'%s' % filename\<close>\<close>

definition str_of :: "string option \<Rightarrow> string" where
  "str_of x = (case x of None \<Rightarrow> ''None'' | Some v \<Rightarrow> v)"

definition validate_filename :: "filesys \<Rightarrow> validator \<Rightarrow> error option" where
  "validate_filename f v =
     (let fname = filename (v_tts v)
      in case fname of
           None \<Rightarrow> Some (AttributeError (''file: '' @ str_of fname @ '' must be in .wav format!''))
         | Some name \<Rightarrow>
             if \<not> (name \<noteq> [] \<and> endswith name ''.wav'')
             then Some (AttributeError (''file: '' @ str_of fname @ '' must be in .wav format!''))
             else
               (let dir_path = dirname name
                in if \<not> (exists f dir_path \<and> isdir f dir_path)
                   then Some (AttributeError (''filename: '' @ str_of fname @ '' is not valid!''))
                   else None))"

definition validate :: "filesys \<Rightarrow> validator \<Rightarrow> error option" where
  "validate f v =
     (case validate_instance v of
        Some x \<Rightarrow> Some x
      | None \<Rightarrow>
     (case validate_filename f v of
        Some x \<Rightarrow> Some x
      | None \<Rightarrow>
     (case validate_lang v (v_tts v) of
        Some x \<Rightarrow> Some x
      | None \<Rightarrow> validate_connection v (v_tts v))))"

subsection \<open>The timing of an uninterrupted walk, in closed form\<close>



subsection \<open>Concrete environments, engines and states for the examples\<close>

definition fs0 :: filesys where
  "fs0 = \<lparr>files = (\<lambda>p. None), dirs = (\<lambda>p. p = ''/tmp'' \<or> p = ''/cache''),
          writable = (\<lambda>p. True), readable = (\<lambda>p. True)\<rparr>"

text \<open>An engine that writes its audio where it is told to; the digest is a stand-in.\<close>

definition be_hint :: backend where
  "be_hint = \<lparr>tts_type = ''wav'', cache_directory = ''/cache'',
              md5_hexdigest = (\<lambda>u. ''h'' @ u),
              get_tts = (\<lambda>u w f. (Inr (w, Some ''pau:0.5''), f\<lparr>files := (files f)(w \<mapsto> ''RIFF'')\<rparr>)),
              visime = (\<lambda>ph. None),
              curate_cache = (\<lambda>d f. f)\<rparr>"


text \<open>An engine whose synthesis fails.\<close>

definition be_down :: backend where
  "be_down = be_hint\<lparr>get_tts := (\<lambda>u w f. (Inl (BackendError ''unreachable''), f))\<rparr>"

text \<open>An engine that leaves a partial file where it was told to write, and then fails.\<close>

definition be_partial :: backend where
  "be_partial = be_hint\<lparr>get_tts :=
     (\<lambda>u w f. (Inl (BackendError ''interrupted''), f\<lparr>files := (files f)(w \<mapsto> ''RI'')\<rparr>))\<rparr>"

definition s0 :: state where
  "s0 = \<lparr>fs = fs0, ops = [], queue = [], terminated = False, enclosure = Api,
         p_handle = None, clock = 0, draws = 0, trace = []\<rparr>"

text \<open>No signal is ever set; every blink is drawn; every artifact plays for one second.\<close>

definition env_quiet :: env where
  "env_quiet = \<lparr>stoppingTTS = (\<lambda>t. False), buttonPress = (\<lambda>t. False),
                random_random = (\<lambda>n. 0), can_play = (\<lambda>d. True), audio_len = (\<lambda>d. 1)\<rparr>"

text \<open>\<open>stoppingTTS\<close> is set from half a second on.\<close>

definition env_stop :: env where
  "env_stop = env_quiet\<lparr>stoppingTTS := (\<lambda>t. 1/2 \<le> t)\<rparr>"

definition tts0 :: tts where
  "tts0 = \<lparr>lang = ''en-us'', voice = None, filename = Some ''/tmp/tts.wav'',
           classes = [''Mimic'', ''TTS'', ''object''], engine = be_hint\<rparr>"

definition v0 :: validator where
  "v0 = \<lparr>v_tts = tts0, get_tts_class = ''Mimic'',
         validate_lang = (\<lambda>t. None), validate_connection = (\<lambda>t. None)\<rparr>"

section \<open>Properties\<close>

subsection \<open>Paths and \<open>strip\<close>\<close>





subsection \<open>The cache round trip\<close>




subsection \<open>\<open>execute\<close>\<close>



lemma execute_hit:
  assumes "exists (fs s) (wav_path b u)"
  shows "execute b u s =
           (None, s\<lparr>queue := queue s @
              [(tts_type b, wav_path b u, visime b (load_phonemes b (md5_hexdigest b u) s))]\<rparr>)"
  using assms by (simp add: execute_def wav_path_def Let_def queue_put_def)








text \<open>
  An engine that has written part of the audio to the hinted path when it fails: the error
  comes out and nothing is queued, but the cache now holds that file, and the next call
  for the same utterance is a cache hit that queues it.
\<close>

theorem execute_synthesis_error_counterexample:
  "\<not> exists (fs s0) (wav_path be_partial ''hi'')
   \<and> fst (execute be_partial ''hi'' s0) = Some (BackendError ''interrupted'')
   \<and> queue (snd (execute be_partial ''hi'' s0)) = []
   \<and> files (fs (snd (execute be_partial ''hi'' s0))) (wav_path be_partial ''hi'') = Some ''RI''
   \<and> fs (snd (execute be_partial ''hi'' s0)) \<noteq> fs s0
   \<and> fst (execute be_partial ''hi'' (snd (execute be_partial ''hi'' s0))) = None
   \<and> queue (snd (execute be_partial ''hi'' (snd (execute be_partial ''hi'' s0))))
       = [(''wav'', ''/cache/hhiwav'', None)]"
proof -
  have w: "wav_path be_partial ''hi'' = ''/cache/hhiwav''"
    by (simp add: be_partial_def be_hint_def wav_path_def path_join_def)
  have e1: "execute be_partial ''hi'' s0 =
              (Some (BackendError ''interrupted''),
               s0\<lparr>fs := fs0\<lparr>files := (files fs0)(''/cache/hhiwav'' \<mapsto> ''RI'')\<rparr>,
                  ops := [Synth ''hi'' ''/cache/hhiwav'']\<rparr>)"
    by (simp add: execute_def be_partial_def be_hint_def s0_def fs0_def path_join_def exists_def
        Let_def)
  have ne: "fs0\<lparr>files := (files fs0)(''/cache/hhiwav'' \<mapsto> ''RI'')\<rparr> \<noteq> fs0"
  proof
    assume "fs0\<lparr>files := (files fs0)(''/cache/hhiwav'' \<mapsto> ''RI'')\<rparr> = fs0"
    then have "files (fs0\<lparr>files := (files fs0)(''/cache/hhiwav'' \<mapsto> ''RI'')\<rparr>) ''/cache/hhiwav''
               = files fs0 ''/cache/hhiwav''"
      by simp
    then show False by (simp add: fs0_def)
  qed
  have e2: "execute be_partial ''hi''
              (s0\<lparr>fs := fs0\<lparr>files := (files fs0)(''/cache/hhiwav'' \<mapsto> ''RI'')\<rparr>,
                  ops := [Synth ''hi'' ''/cache/hhiwav'']\<rparr>) =
            (None,
             s0\<lparr>fs := fs0\<lparr>files := (files fs0)(''/cache/hhiwav'' \<mapsto> ''RI'')\<rparr>,
                ops := [Synth ''hi'' ''/cache/hhiwav''],
                queue := [(''wav'', ''/cache/hhiwav'', None)]\<rparr>)"
    by (simp add: execute_def be_partial_def be_hint_def s0_def fs0_def path_join_def exists_def
        Let_def queue_put_def load_phonemes_def)
  have x0: "\<not> exists (fs s0) ''/cache/hhiwav''"
    by (simp add: s0_def fs0_def exists_def)
  show ?thesis
    using x0 ne by (simp add: w e1 e2) (simp add: s0_def)
qed

text \<open>
  C5 (as amended): for every utterance whose cache lookup misses, if \<open>get_tts\<close> raises,
  \<open>execute\<close> raises the same error, the queue is as before (no job is submitted), and
  \<open>execute\<close> itself neither curates the cache nor writes a payload: the only collaborator
  it has called is \<open>get_tts\<close>, and the file system is exactly the one the failing call
  left. So the cache is unchanged when the engine had written nothing before it failed,
  and whatever the engine had written stays.
\<close>

theorem execute_synthesis_error:
  assumes "\<not> exists (fs s) (wav_path b u)"
      and "get_tts b u (wav_path b u) (fs s) = (Inl err, f)"
  shows "execute b u s = (Some err, s\<lparr>fs := f, ops := ops s @ [Synth u (wav_path b u)]\<rparr>)
         \<and> queue (snd (execute b u s)) = queue s
         \<and> fs (snd (execute b u s)) = f
         \<and> ops (snd (execute b u s)) = ops s @ [Synth u (wav_path b u)]
         \<and> (f = fs s \<longrightarrow> fs (snd (execute b u s)) = fs s)"
  using assms by (simp add: execute_def wav_path_def Let_def)

text \<open>An engine that is down: the error comes out, nothing is queued, nothing is written.\<close>

theorem execute_synthesis_error_witness:
  "\<not> exists (fs s0) (wav_path be_down ''hi'')
   \<and> get_tts be_down ''hi'' (wav_path be_down ''hi'') (fs s0)
       = (Inl (BackendError ''unreachable''), fs0)
   \<and> execute be_down ''hi'' s0
       = (Some (BackendError ''unreachable''), s0\<lparr>ops := [Synth ''hi'' ''/cache/hhiwav'']\<rparr>)"
proof -
  have m: "\<not> exists (fs s0) (wav_path be_down ''hi'')"
    by (simp add: be_down_def be_hint_def s0_def fs0_def wav_path_def path_join_def exists_def)
  have g: "get_tts be_down ''hi'' (wav_path be_down ''hi'') (fs s0)
             = (Inl (BackendError ''unreachable''), fs0)"
    by (simp add: be_down_def be_hint_def s0_def)
  have w: "wav_path be_down ''hi'' = ''/cache/hhiwav''"
    by (simp add: be_down_def be_hint_def wav_path_def path_join_def)
  show ?thesis using m g execute_synthesis_error [OF m g] by (simp add: w s0_def)
qed

text \<open>
  C8: for every utterance whose cache lookup hits, \<open>execute\<close> only appends one job to the
  queue: the file system is unchanged (no payload file is written) and no collaborator is
  called (no curation, no synthesis).
\<close>

theorem execute_hit_writes_nothing:
  assumes "exists (fs s) (wav_path b u)"
  shows "fs (snd (execute b u s)) = fs s
         \<and> ops (snd (execute b u s)) = ops s
         \<and> execute b u s =
             (None, s\<lparr>queue := queue s @
                [(tts_type b, wav_path b u,
                  visime b (load_phonemes b (md5_hexdigest b u) s))]\<rparr>)"
  using assms by (simp add: execute_hit)

text \<open>A hit in a cache that holds the artifact of the utterance.\<close>

theorem execute_hit_writes_nothing_witness:
  "exists (fs (s0\<lparr>fs := fs0\<lparr>files := (files fs0)(''/cache/hhiwav'' \<mapsto> ''RIFF'')\<rparr>\<rparr>))
     (wav_path be_hint ''hi'')
   \<and> fs (snd (execute be_hint ''hi''
        (s0\<lparr>fs := fs0\<lparr>files := (files fs0)(''/cache/hhiwav'' \<mapsto> ''RIFF'')\<rparr>\<rparr>)))
      = fs0\<lparr>files := (files fs0)(''/cache/hhiwav'' \<mapsto> ''RIFF'')\<rparr>
   \<and> ops (snd (execute be_hint ''hi''
        (s0\<lparr>fs := fs0\<lparr>files := (files fs0)(''/cache/hhiwav'' \<mapsto> ''RIFF'')\<rparr>\<rparr>))) = []"
proof -
  have x: "exists (fs (s0\<lparr>fs := fs0\<lparr>files := (files fs0)(''/cache/hhiwav'' \<mapsto> ''RIFF'')\<rparr>\<rparr>))
     (wav_path be_hint ''hi'')"
    by (simp add: be_hint_def s0_def fs0_def wav_path_def path_join_def exists_def)
  show ?thesis using x execute_hit_writes_nothing [OF x] by (simp add: s0_def)
qed

subsection \<open>The trace and its projections\<close>

lemma visemes_of_append: "visemes_of (a @ b) = visemes_of a @ visemes_of b"
  by (simp add: visemes_of_def)

lemma polls_of_append: "polls_of (a @ b) = polls_of a @ polls_of b"
  by (simp add: polls_of_def)

lemma plays_of_append: "plays_of (a @ b) = plays_of a @ plays_of b"
  by (simp add: plays_of_def)

lemma visemes_of_Nil: "visemes_of [] = []"
  by (simp add: visemes_of_def)

lemma polls_of_Nil: "polls_of [] = []"
  by (simp add: polls_of_def)

lemma plays_of_Nil: "plays_of [] = []"
  by (simp add: plays_of_def)

lemma visemes_of_Cons:
  "visemes_of ((t, ev) # tr) = (case ev of Viseme c \<Rightarrow> [(t, c)] | _ \<Rightarrow> []) @ visemes_of tr"
  by (simp add: visemes_of_def)

lemma polls_of_Cons:
  "polls_of ((t, ev) # tr) = (case ev of Poll n \<Rightarrow> [n] | _ \<Rightarrow> []) @ polls_of tr"
  by (simp add: polls_of_def)

lemma plays_of_Cons:
  "plays_of ((t, ev) # tr) =
     (case ev of PlayWav d \<Rightarrow> [(t, ev)] | PlayMp3 d \<Rightarrow> [(t, ev)] | _ \<Rightarrow> []) @ plays_of tr"
  by (simp add: plays_of_def split: event.splits)

lemmas proj_simps =
  visemes_of_append polls_of_append plays_of_append
  visemes_of_Nil polls_of_Nil plays_of_Nil
  visemes_of_Cons polls_of_Cons plays_of_Cons

lemmas step_defs =
  check_for_signal_def emit_def sleep_def mouth_viseme_def wait_until_def Let_def

subsection \<open>The viseme walk\<close>

lemma visime_loop_frame:
  "queue (snd (visime_loop e start pairs s)) = queue s
   \<and> terminated (snd (visime_loop e start pairs s)) = terminated s
   \<and> enclosure (snd (visime_loop e start pairs s)) = enclosure s
   \<and> p_handle (snd (visime_loop e start pairs s)) = p_handle s
   \<and> plays_of (trace (snd (visime_loop e start pairs s))) = plays_of (trace s)"
proof (induction pairs arbitrary: s)
  case Nil
  show ?case by simp
next
  case (Cons pr pairs)
  obtain code duration where pr: "pr = (code, duration)" by (cases pr)
  show ?case
    unfolding pr
    by (simp add: Cons.IH step_defs proj_simps split: enclosure_attr.splits)
qed


lemma visime_loop_append:
  "visime_loop e start pre s = (Done, s1) \<Longrightarrow>
   visime_loop e start (pre @ rest) s = visime_loop e start rest s1"
proof (induction pre arbitrary: s)
  case Nil
  then show ?case by simp
next
  case (Cons pr pre)
  obtain code duration where pr: "pr = (code, duration)" by (cases pr)
  show ?case
    using Cons.prems unfolding pr
    by (auto simp: Cons.IH Let_def split: prod.splits if_splits enclosure_attr.splits)
qed

lemma visime_loop_polls:
  "visime_loop e start pre s = (Done, s1) \<Longrightarrow>
   polls_of (trace s1) =
     polls_of (trace s) @ concat (replicate (length pre) [''stoppingTTS'', ''buttonPress''])"
proof (induction pre arbitrary: s)
  case Nil
  then show ?case by simp
next
  case (Cons pr pre)
  obtain code duration where pr: "pr = (code, duration)" by (cases pr)
  show ?case
    using Cons.prems unfolding pr
    by (auto simp: step_defs proj_simps dest!: Cons.IH
        split: prod.splits if_splits enclosure_attr.splits)
qed

lemma visime_loop_interrupted:
  assumes "stoppingTTS e (clock s1) \<or> buttonPress e (clock s1)"
  shows "visime_loop e start ((code, duration) # post) s1 =
           (Returned, if stoppingTTS e (clock s1) then emit (Poll ''stoppingTTS'') s1
                      else emit (Poll ''buttonPress'') (emit (Poll ''stoppingTTS'') s1))"
  using assms by (auto simp: check_for_signal_def emit_def Let_def)


subsection \<open>The steps of the \<open>try\<close> block\<close>

lemma blink_frame:
  "queue (snd (blink e r s)) = queue s
   \<and> terminated (snd (blink e r s)) = terminated s
   \<and> enclosure (snd (blink e r s)) = enclosure s
   \<and> p_handle (snd (blink e r s)) = p_handle s
   \<and> visemes_of (trace (snd (blink e r s))) = visemes_of (trace s)
   \<and> plays_of (trace (snd (blink e r s))) = plays_of (trace s)"
  by (simp add: blink_def emit_def Let_def proj_simps split: enclosure_attr.splits)

lemma blink_no_raise: "enclosure s \<noteq> Missing \<Longrightarrow> fst (blink e r s) = None"
  by (simp add: blink_def Let_def split: enclosure_attr.splits)

lemma communicate_frame:
  "queue (snd (communicate s)) = queue s
   \<and> terminated (snd (communicate s)) = terminated s
   \<and> visemes_of (trace (snd (communicate s))) = visemes_of (trace s)
   \<and> plays_of (trace (snd (communicate s))) = plays_of (trace s)"
  by (simp add: communicate_def emit_def proj_simps split: option.splits)

lemma start_playback_frame:
  "queue (snd (start_playback e k d s)) = queue s
   \<and> terminated (snd (start_playback e k d s)) = terminated s
   \<and> enclosure (snd (start_playback e k d s)) = enclosure s
   \<and> visemes_of (trace (snd (start_playback e k d s))) = visemes_of (trace s)"
  by (simp add: start_playback_def play_wav_def play_mp3_def emit_def proj_simps)


lemma show_visimes_snd: "snd (show_visimes e pairs s) = snd (visime_loop e (clock s) pairs s)"
  by (simp add: show_visimes_def Let_def split: prod.splits outcome.splits)


lemma walk_frame:
  "queue (snd (show_if_visimes e v s)) = queue s
   \<and> terminated (snd (show_if_visimes e v s)) = terminated s
   \<and> p_handle (snd (show_if_visimes e v s)) = p_handle s
   \<and> plays_of (trace (snd (show_if_visimes e v s))) = plays_of (trace s)"
  by (simp add: show_if_visimes_def show_visimes_snd visime_loop_frame split: option.splits)


text \<open>What the \<open>try\<close> block leaves once the walk has returned in state \<open>s3\<close>.\<close>

lemma after_walk_frame:
  "queue (snd (case communicate s3 of (Some x, s4) \<Rightarrow> (Some x, s4)
               | (None, s4) \<Rightarrow> blink e r s4)) = queue s3
   \<and> terminated (snd (case communicate s3 of (Some x, s4) \<Rightarrow> (Some x, s4)
               | (None, s4) \<Rightarrow> blink e r s4)) = terminated s3
   \<and> visemes_of (trace (snd (case communicate s3 of (Some x, s4) \<Rightarrow> (Some x, s4)
               | (None, s4) \<Rightarrow> blink e r s4))) = visemes_of (trace s3)
   \<and> plays_of (trace (snd (case communicate s3 of (Some x, s4) \<Rightarrow> (Some x, s4)
               | (None, s4) \<Rightarrow> blink e r s4))) = plays_of (trace s3)"
proof (cases "communicate s3")
  case (Pair r4 s4)
  have f4: "queue s4 = queue s3 \<and> terminated s4 = terminated s3
            \<and> visemes_of (trace s4) = visemes_of (trace s3)
            \<and> plays_of (trace s4) = plays_of (trace s3)"
    using communicate_frame [of s3] Pair by simp
  show ?thesis
  proof (cases r4)
    case None
    then show ?thesis
      using f4 blink_frame [where e = e and r = r and s = s4] by (simp add: Pair)
  next
    case (Some x)
    then show ?thesis
      using f4 by (simp add: Pair)
  qed
qed


lemma try_body_frame:
  "queue (snd (try_body e job s)) = queue s
   \<and> terminated (snd (try_body e job s)) = terminated s"
proof -
  obtain k d v where job: "job = (k, d, v)" by (cases job)
  obtain r1 s1 where b: "blink e (1/2) s = (r1, s1)" by (cases "blink e (1/2) s")
  have s1: "queue s1 = queue s \<and> terminated s1 = terminated s"
    using blink_frame [where e = e and r = "1/2" and s = s] b by simp
  obtain r2 s2 where p: "start_playback e k d s1 = (r2, s2)"
    by (cases "start_playback e k d s1")
  have s2: "queue s2 = queue s \<and> terminated s2 = terminated s"
    using start_playback_frame [where e = e and k = k and d = d and s = s1] p s1 by simp
  obtain r3 s3 where w: "show_if_visimes e v s2 = (r3, s3)"
    by (cases "show_if_visimes e v s2")
  have s3: "queue s3 = queue s \<and> terminated s3 = terminated s"
    using walk_frame [where v = v and s = s2 and e = e] w s2 by simp
  show ?thesis
    using after_walk_frame [where ?s3.0 = s3 and e = e and r = "1/5"] s1 s2 s3
    by (simp add: try_body_def job b p w split: option.splits)
qed

lemma run_iter_frame:
  "queue (run_iter e s) = tl (queue s) \<and> terminated (run_iter e s) = terminated s"
  by (cases "queue s") (simp_all add: run_iter_def try_body_frame)

lemma blink_clock: "clock (snd (blink e r s)) = clock s"
  by (simp add: blink_def emit_def Let_def split: enclosure_attr.splits)

lemma communicate_enclosure: "enclosure (snd (communicate s)) = enclosure s"
  by (simp add: communicate_def emit_def split: option.splits)

lemma walk_enclosure: "enclosure (snd (show_if_visimes e v s)) = enclosure s"
  by (simp add: show_if_visimes_def show_visimes_snd visime_loop_frame split: option.splits)

lemma try_body_enclosure: "enclosure (snd (try_body e job s)) = enclosure s"
proof -
  obtain k d v where job: "job = (k, d, v)" by (cases job)
  obtain r1 s1 where b: "blink e (1/2) s = (r1, s1)" by (cases "blink e (1/2) s")
  have s1: "enclosure s1 = enclosure s"
    using blink_frame [where e = e and r = "1/2" and s = s] b by simp
  obtain r2 s2 where p: "start_playback e k d s1 = (r2, s2)"
    by (cases "start_playback e k d s1")
  have s2: "enclosure s2 = enclosure s"
    using start_playback_frame [where e = e and k = k and d = d and s = s1] p s1 by simp
  obtain r3 s3 where w: "show_if_visimes e v s2 = (r3, s3)"
    by (cases "show_if_visimes e v s2")
  have s3: "enclosure s3 = enclosure s"
    using walk_enclosure [where v = v and s = s2 and e = e] w s2 by simp
  obtain r4 s4 where c: "communicate s3 = (r4, s4)" by (cases "communicate s3")
  have s4: "enclosure s4 = enclosure s"
    using communicate_enclosure [of s3] c s3 by simp
  have s5: "enclosure (snd (blink e (1/5) s4)) = enclosure s"
    using blink_frame [where e = e and r = "1/5" and s = s4] s4 by simp
  show ?thesis
    using s1 s2 s3 s4 s5 by (simp add: try_body_def job b p w c split: option.splits)
qed

lemma run_iter_enclosure: "enclosure (run_iter e s) = enclosure s"
  by (cases "queue s") (simp_all add: run_iter_def try_body_enclosure)

text \<open>A job of a known kind whose player can be started: one play event is added.\<close>

lemma try_body_plays:
  assumes "enclosure s \<noteq> Missing" and "can_play e d"
  shows "plays_of (trace (snd (try_body e (''wav'', d, v) s)))
           = plays_of (trace s) @ [(clock s, PlayWav d)]"
    and "plays_of (trace (snd (try_body e (''mp3'', d, v) s)))
           = plays_of (trace s) @ [(clock s, PlayMp3 d)]"
proof -
  obtain s1 where b: "blink e (1/2) s = (None, s1)"
    using blink_no_raise [OF assms(1), where e = e and r = "1/2"]
    by (cases "blink e (1/2) s") simp
  have f1: "enclosure s1 \<noteq> Missing \<and> plays_of (trace s1) = plays_of (trace s)
            \<and> clock s1 = clock s"
    using assms(1) blink_frame [where e = e and r = "1/2" and s = s]
      blink_clock [where e = e and r = "1/2" and s = s]
    by (simp add: b)
  have tail: "plays_of (trace (snd (case show_if_visimes e v s2 of
                  (Some x, s3) \<Rightarrow> (Some x, s3)
                | (None, s3) \<Rightarrow>
                    (case communicate s3 of (Some x, s4) \<Rightarrow> (Some x, s4)
                     | (None, s4) \<Rightarrow> blink e (1/5) s4)))) = plays_of (trace s2)"
    for s2
  proof -
    obtain r3 s3 where w: "show_if_visimes e v s2 = (r3, s3)"
      by (cases "show_if_visimes e v s2")
    have f3: "plays_of (trace s3) = plays_of (trace s2)"
      using walk_frame [where v = v and s = s2 and e = e] w by simp
    show ?thesis
      using after_walk_frame [where ?s3.0 = s3 and e = e and r = "1/5"] f3
      by (simp add: w split: option.splits)
  qed
  show "plays_of (trace (snd (try_body e (''wav'', d, v) s)))
           = plays_of (trace s) @ [(clock s, PlayWav d)]"
    using f1 assms(2)
    by (simp add: try_body_def b start_playback_def play_wav_def tail)
       (simp add: emit_def proj_simps)
  show "plays_of (trace (snd (try_body e (''mp3'', d, v) s)))
           = plays_of (trace s) @ [(clock s, PlayMp3 d)]"
    using f1 assms(2)
    by (simp add: try_body_def b start_playback_def play_mp3_def tail)
       (simp add: emit_def proj_simps)
qed

text \<open>The second pass takes the second job of the queue and runs the \<open>try\<close> block on it.\<close>

lemma run_passes_two:
  assumes "queue s = j1 # j2 # rest" and "\<not> terminated s"
  shows "run_passes (Suc (Suc 0)) e s = snd (try_body e j2 ((run_iter e s)\<lparr>queue := rest\<rparr>))
         \<and> queue (run_passes (Suc (Suc 0)) e s) = rest"
proof -
  have q: "queue (run_iter e s) = j2 # rest" and n: "\<not> terminated (run_iter e s)"
    using run_iter_frame [of e s] assms by simp_all
  have "run_passes (Suc (Suc 0)) e s = run_iter e (run_iter e s)"
    using assms(2) n by simp
  also have "\<dots> = snd (try_body e j2 ((run_iter e s)\<lparr>queue := rest\<rparr>))"
    using q by (simp add: run_iter_def)
  finally show ?thesis by (simp add: try_body_frame)
qed


subsection \<open>Viseme timing\<close>




subsection \<open>\<open>stop\<close>\<close>

lemma run_loop_terminated: "terminated s \<Longrightarrow> run_loop e s = Some s"
  by (subst run_loop.simps) simp

lemma run_loop_step: "\<not> terminated s \<Longrightarrow> run_loop e s = run_loop e (run_iter e s)"
  by (subst run_loop.simps) simp

text \<open>The passes are the passes of the loop.\<close>

lemma run_loop_passes: "run_loop e s = run_loop e (run_passes n e s)"
proof (induction n arbitrary: s)
  case 0
  show ?case by simp
next
  case (Suc n)
  show ?case
  proof (cases "terminated s")
    case True
    then show ?thesis by simp
  next
    case False
    then show ?thesis using Suc [of "run_iter e s"] by (simp add: run_loop_step)
  qed
qed

text \<open>
  C3, at a queue holding one job: \<open>stop\<close> sets the flag, then raises \<open>NameError\<close> on the
  name \<open>queue\<close>, and the job is still in the queue; the loop of the consumer, at its next
  test of the flag, exits in that state.
\<close>

theorem stop_nonempty_queue:
  "stop (s0\<lparr>queue := [(''wav'', ''/cache/x.wav'', None)]\<rparr>) =
     (Some (NameError ''queue''),
      s0\<lparr>queue := [(''wav'', ''/cache/x.wav'', None)], terminated := True\<rparr>)
   \<and> run_loop env_quiet (snd (stop (s0\<lparr>queue := [(''wav'', ''/cache/x.wav'', None)]\<rparr>))) =
       Some (s0\<lparr>queue := [(''wav'', ''/cache/x.wav'', None)], terminated := True\<rparr>)"
  by (simp add: stop_def s0_def run_loop_terminated)

subsection \<open>An interrupt during the walk\<close>

text \<open>
  C7: let a job with viseme events be dequeued, let the walk over the first events \<open>pre\<close>
  run to its end without a signal, and let one of the two signals be set at the next
  poll. Then both signals have been polled once for each event of \<open>pre\<close>; the walk returns
  without raising after that poll (the one of \<open>stoppingTTS\<close>, and the one of \<open>buttonPress\<close>
  when \<open>stoppingTTS\<close> was not set); at the end of the pass through the loop body no viseme
  has been sent beyond those of \<open>pre\<close>; the rest of the queue and the termination flag
  are as they were; and, unless the thread has been told to terminate, the next pass of
  the loop takes the next queued job off the queue and runs the \<open>try\<close> block on it, which
  starts its playback when it is a wav or mp3 job whose player can be started.
\<close>

theorem interrupt_ends_walk:
  assumes "queue s0' = (snd_type, data, Some (pre @ (code, duration) # post)) # rest"
      and "blink e (1/2) (s0'\<lparr>queue := rest\<rparr>) = (None, sa)"
      and "start_playback e snd_type data sa = (None, sw)"
      and "visime_loop e (clock sw) pre sw = (Done, s1)"
      and "stoppingTTS e (clock s1) \<or> buttonPress e (clock s1)"
  shows "polls_of (trace s1) =
           polls_of (trace sw) @ concat (replicate (length pre) [''stoppingTTS'', ''buttonPress''])
         \<and> show_visimes e (pre @ (code, duration) # post) sw =
             (None, if stoppingTTS e (clock s1) then emit (Poll ''stoppingTTS'') s1
                    else emit (Poll ''buttonPress'') (emit (Poll ''stoppingTTS'') s1))
         \<and> visemes_of (trace (run_iter e s0')) = visemes_of (trace s1)
         \<and> queue (run_iter e s0') = rest
         \<and> terminated (run_iter e s0') = terminated s0'
         \<and> (rest = (next_kind, next_data, next_vis) # later \<and> \<not> terminated s0' \<longrightarrow>
              run_passes (Suc (Suc 0)) e s0' =
                snd (try_body e (next_kind, next_data, next_vis)
                       ((run_iter e s0')\<lparr>queue := later\<rparr>))
              \<and> queue (run_passes (Suc (Suc 0)) e s0') = later
              \<and> (next_kind = ''wav'' \<and> can_play e next_data \<longrightarrow>
                   plays_of (trace (run_passes (Suc (Suc 0)) e s0')) =
                     plays_of (trace (run_iter e s0'))
                     @ [(clock (run_iter e s0'), PlayWav next_data)])
              \<and> (next_kind = ''mp3'' \<and> can_play e next_data \<longrightarrow>
                   plays_of (trace (run_passes (Suc (Suc 0)) e s0')) =
                     plays_of (trace (run_iter e s0'))
                     @ [(clock (run_iter e s0'), PlayMp3 next_data)]))"
proof -
  define s2 where "s2 = (if stoppingTTS e (clock s1) then emit (Poll ''stoppingTTS'') s1
                    else emit (Poll ''buttonPress'') (emit (Poll ''stoppingTTS'') s1))"
  have lw: "visime_loop e (clock sw) (pre @ (code, duration) # post) sw = (Returned, s2)"
    using visime_loop_append [OF assms(4)] visime_loop_interrupted [OF assms(5)]
    by (simp add: s2_def)
  have sv: "show_visimes e (pre @ (code, duration) # post) sw = (None, s2)"
    by (simp add: show_visimes_def lw)
  have v2: "visemes_of (trace s2) = visemes_of (trace s1)"
    by (simp add: s2_def emit_def proj_simps)
  have tb: "try_body e (snd_type, data, Some (pre @ (code, duration) # post))
              (s0'\<lparr>queue := rest\<rparr>) =
            (case communicate s2 of (Some x, s4) \<Rightarrow> (Some x, s4)
             | (None, s4) \<Rightarrow> blink e (1/5) s4)"
    by (simp add: try_body_def assms(2,3) show_if_visimes_def sv)
  have ri: "run_iter e s0' = snd (case communicate s2 of (Some x, s4) \<Rightarrow> (Some x, s4)
             | (None, s4) \<Rightarrow> blink e (1/5) s4)"
    by (simp add: run_iter_def assms(1) tb)
  have vr: "visemes_of (trace (run_iter e s0')) = visemes_of (trace s2)"
    unfolding ri using after_walk_frame [where ?s3.0 = s2 and e = e and r = "1/5"] by simp
  have fr: "queue (run_iter e s0') = rest \<and> terminated (run_iter e s0') = terminated s0'"
    using run_iter_frame [of e s0'] assms(1) by simp
  have en0: "enclosure s0' \<noteq> Missing"
    using assms(2) by (auto simp: blink_def split: enclosure_attr.splits)
  have nx: "run_passes (Suc (Suc 0)) e s0' =
              snd (try_body e (next_kind, next_data, next_vis)
                     ((run_iter e s0')\<lparr>queue := later\<rparr>))
            \<and> queue (run_passes (Suc (Suc 0)) e s0') = later
            \<and> (next_kind = ''wav'' \<and> can_play e next_data \<longrightarrow>
                 plays_of (trace (run_passes (Suc (Suc 0)) e s0')) =
                   plays_of (trace (run_iter e s0'))
                   @ [(clock (run_iter e s0'), PlayWav next_data)])
            \<and> (next_kind = ''mp3'' \<and> can_play e next_data \<longrightarrow>
                 plays_of (trace (run_passes (Suc (Suc 0)) e s0')) =
                   plays_of (trace (run_iter e s0'))
                   @ [(clock (run_iter e s0'), PlayMp3 next_data)])"
    if r: "rest = (next_kind, next_data, next_vis) # later" and nt: "\<not> terminated s0'"
  proof -
    have q: "queue s0' = (snd_type, data, Some (pre @ (code, duration) # post))
               # (next_kind, next_data, next_vis) # later"
      using assms(1) r by simp
    note two = run_passes_two [OF q nt, of e]
    have enx: "enclosure ((run_iter e s0')\<lparr>queue := later\<rparr>) \<noteq> Missing"
      using en0 by (simp add: run_iter_enclosure)
    have a: "run_passes (Suc (Suc 0)) e s0' =
               snd (try_body e (next_kind, next_data, next_vis)
                      ((run_iter e s0')\<lparr>queue := later\<rparr>))"
      using two by (rule conjunct1)
    have b: "queue (run_passes (Suc (Suc 0)) e s0') = later"
      using two by (rule conjunct2)
    have c: "next_kind = ''wav'' \<and> can_play e next_data \<longrightarrow>
               plays_of (trace (run_passes (Suc (Suc 0)) e s0')) =
                 plays_of (trace (run_iter e s0'))
                 @ [(clock (run_iter e s0'), PlayWav next_data)]"
      using try_body_plays(1) [OF enx, of e next_data next_vis] by (simp add: a del: run_passes.simps)
    have d: "next_kind = ''mp3'' \<and> can_play e next_data \<longrightarrow>
               plays_of (trace (run_passes (Suc (Suc 0)) e s0')) =
                 plays_of (trace (run_iter e s0'))
                 @ [(clock (run_iter e s0'), PlayMp3 next_data)]"
      using try_body_plays(2) [OF enx, of e next_data next_vis] by (simp add: a del: run_passes.simps)
    from a b c d show ?thesis by (intro conjI)
  qed
  have c1: "polls_of (trace s1) =
           polls_of (trace sw) @ concat (replicate (length pre) [''stoppingTTS'', ''buttonPress''])"
    by (rule visime_loop_polls [OF assms(4)])
  have c3: "visemes_of (trace (run_iter e s0')) = visemes_of (trace s1)"
    using vr v2 by simp
  have nxi: "rest = (next_kind, next_data, next_vis) # later \<and> \<not> terminated s0' \<longrightarrow>
              run_passes (Suc (Suc 0)) e s0' =
                snd (try_body e (next_kind, next_data, next_vis)
                       ((run_iter e s0')\<lparr>queue := later\<rparr>))
              \<and> queue (run_passes (Suc (Suc 0)) e s0') = later
              \<and> (next_kind = ''wav'' \<and> can_play e next_data \<longrightarrow>
                   plays_of (trace (run_passes (Suc (Suc 0)) e s0')) =
                     plays_of (trace (run_iter e s0'))
                     @ [(clock (run_iter e s0'), PlayWav next_data)])
              \<and> (next_kind = ''mp3'' \<and> can_play e next_data \<longrightarrow>
                   plays_of (trace (run_passes (Suc (Suc 0)) e s0')) =
                     plays_of (trace (run_iter e s0'))
                     @ [(clock (run_iter e s0'), PlayMp3 next_data)])"
    by (intro impI) (elim conjE, rule nx, assumption+)
  from c1 sv [unfolded s2_def] c3 fr [THEN conjunct1] fr [THEN conjunct2] nxi
  show ?thesis by (intro conjI)
qed

text \<open>
  A wav job with three events and a second wav job behind it; \<open>stoppingTTS\<close> is set from
  0.5 s: only \<open>A\<close> is sent, and the second pass plays the second job (at 1 s, when the
  player of the first has ended).
\<close>

theorem interrupt_ends_walk_witness:
  "stoppingTTS env_stop (1/2)
   \<and> visemes_of (trace (run_iter env_stop
        (s0\<lparr>queue := [(''wav'', ''a'', Some [(''A'', 1/2), (''B'', 3/10), (''C'', 1)]),
                       (''wav'', ''b'', None)]\<rparr>))) = [(0, ''A'')]
   \<and> queue (run_iter env_stop
        (s0\<lparr>queue := [(''wav'', ''a'', Some [(''A'', 1/2), (''B'', 3/10), (''C'', 1)]),
                       (''wav'', ''b'', None)]\<rparr>)) = [(''wav'', ''b'', None)]
   \<and> \<not> terminated (run_iter env_stop
        (s0\<lparr>queue := [(''wav'', ''a'', Some [(''A'', 1/2), (''B'', 3/10), (''C'', 1)]),
                       (''wav'', ''b'', None)]\<rparr>))
   \<and> queue (run_passes (Suc (Suc 0)) env_stop
        (s0\<lparr>queue := [(''wav'', ''a'', Some [(''A'', 1/2), (''B'', 3/10), (''C'', 1)]),
                       (''wav'', ''b'', None)]\<rparr>)) = []
   \<and> plays_of (trace (run_passes (Suc (Suc 0)) env_stop
        (s0\<lparr>queue := [(''wav'', ''a'', Some [(''A'', 1/2), (''B'', 3/10), (''C'', 1)]),
                       (''wav'', ''b'', None)]\<rparr>)))
       = [(0, PlayWav ''a''), (1, PlayWav ''b'')]"
proof -
  define sq where "sq = s0\<lparr>queue := [(''wav'', ''a'', Some ([(''A'', 1/2)] @ (''B'', 3/10) # [(''C'', 1)])),
                       (''wav'', ''b'', None)]\<rparr>"
  define sa where "sa = snd (blink env_stop (1/2) (sq\<lparr>queue := [(''wav'', ''b'', None)]\<rparr>))"
  define sw where "sw = snd (start_playback env_stop ''wav'' ''a'' sa)"
  define s1 where "s1 = snd (visime_loop env_stop (clock sw) [(''A'', 1/2)] sw)"
  have h1: "queue sq = (''wav'', ''a'', Some ([(''A'', 1/2)] @ (''B'', 3/10) # [(''C'', 1)]))
              # [(''wav'', ''b'', None)]"
    by (simp add: sq_def)
  have h2: "blink env_stop (1/2) (sq\<lparr>queue := [(''wav'', ''b'', None)]\<rparr>) = (None, sa)"
    by (simp add: sa_def sq_def s0_def blink_def env_stop_def env_quiet_def Let_def)
  have h3: "start_playback env_stop ''wav'' ''a'' sa = (None, sw)"
    by (simp add: sw_def sa_def sq_def s0_def blink_def env_stop_def env_quiet_def Let_def
        start_playback_def play_wav_def emit_def)
  have cw: "clock sw = 0"
    by (simp add: sw_def sa_def sq_def s0_def blink_def env_stop_def env_quiet_def Let_def
        start_playback_def play_wav_def emit_def)
  have ew: "enclosure sw = Api"
    by (simp add: sw_def sa_def sq_def s0_def blink_def env_stop_def env_quiet_def Let_def
        start_playback_def play_wav_def emit_def)
  have tw: "visemes_of (trace sw) = []"
    by (simp add: sw_def sa_def sq_def s0_def blink_def env_stop_def env_quiet_def Let_def
        start_playback_def play_wav_def emit_def proj_simps)
  have l1: "visime_loop env_stop 0 [(''A'', 1/2)] sw =
              (Done, snd (visime_loop env_stop 0 [(''A'', 1/2)] sw))"
    using cw ew by (simp add: env_stop_def env_quiet_def step_defs)
  have h4: "visime_loop env_stop (clock sw) [(''A'', 1/2)] sw = (Done, s1)"
    using l1 by (simp add: s1_def cw)
  have c1: "clock s1 = 1/2"
    using cw ew by (simp add: s1_def env_stop_def env_quiet_def step_defs)
  have t1: "visemes_of (trace s1) = [(0, ''A'')]"
    using cw ew tw by (simp add: s1_def env_stop_def env_quiet_def step_defs proj_simps)
  have h5: "stoppingTTS env_stop (clock s1) \<or> buttonPress env_stop (clock s1)"
    by (simp add: c1 env_stop_def)
  have tm: "\<not> terminated sq" by (simp add: sq_def s0_def)
  have st: "stoppingTTS env_stop (1/2)" by (simp add: env_stop_def)
  have cp: "can_play env_stop ''b''" by (simp add: env_stop_def env_quiet_def)
  have pr: "plays_of (trace (run_iter env_stop sq)) = [(0, PlayWav ''a'')]
            \<and> clock (run_iter env_stop sq) = 1"
    by (simp add: sq_def run_iter_def try_body_def blink_def start_playback_def play_wav_def
        show_if_visimes_def show_visimes_def communicate_def env_stop_def env_quiet_def s0_def
        step_defs proj_simps)
  note inst = interrupt_ends_walk [OF h1 h2 h3 h4 h5,
      where next_kind = "''wav''" and next_data = "''b''" and next_vis = None and later = "[]"]
  have i3: "visemes_of (trace (run_iter env_stop sq)) = [(0, ''A'')]"
    using inst [THEN conjunct2, THEN conjunct2, THEN conjunct1] t1 by simp
  have i4: "queue (run_iter env_stop sq) = [(''wav'', ''b'', None)]"
    using inst [THEN conjunct2, THEN conjunct2, THEN conjunct2, THEN conjunct1] .
  have i5: "\<not> terminated (run_iter env_stop sq)"
    using inst [THEN conjunct2, THEN conjunct2, THEN conjunct2, THEN conjunct2, THEN conjunct1]
      tm by simp
  have ant: "[(''wav'', ''b'', None)] = (''wav'', ''b'', None) # [] \<and> \<not> terminated sq"
    using tm by simp
  note nxt = inst [THEN conjunct2, THEN conjunct2, THEN conjunct2, THEN conjunct2,
      THEN conjunct2, THEN mp, OF ant]
  have n2: "queue (run_passes (Suc (Suc 0)) env_stop sq) = []"
    using nxt [THEN conjunct2, THEN conjunct1] .
  have n3: "plays_of (trace (run_passes (Suc (Suc 0)) env_stop sq))
              = [(0, PlayWav ''a''), (1, PlayWav ''b'')]"
    using nxt [THEN conjunct2, THEN conjunct2, THEN conjunct1] cp pr
    by (simp del: run_passes.simps)
  have main: "visemes_of (trace (run_iter env_stop sq)) = [(0, ''A'')]
     \<and> queue (run_iter env_stop sq) = [(''wav'', ''b'', None)]
     \<and> \<not> terminated (run_iter env_stop sq)
     \<and> queue (run_passes (Suc (Suc 0)) env_stop sq) = []
     \<and> plays_of (trace (run_passes (Suc (Suc 0)) env_stop sq))
         = [(0, PlayWav ''a''), (1, PlayWav ''b'')]"
    using i3 i4 i5 n2 n3 by (intro conjI)
  show ?thesis
    using main st by (simp add: sq_def del: run_passes.simps)
qed

subsection \<open>A job of unknown kind\<close>




subsection \<open>The validator\<close>

lemma endswith_nonempty: "endswith name ''.wav'' \<Longrightarrow> name \<noteq> []"
  by (auto simp: endswith_def)

lemma isdir_exists: "isdir f p \<Longrightarrow> exists f p"
  by (simp add: isdir_def exists_def)

text \<open>
  An engine of type \<open>mp3\<close> whose file name ends in \<open>mp3\<close>, in an existing directory, is
  rejected by the file-name check.
\<close>

theorem validate_counterexample:
  "validate_instance
     (v0\<lparr>v_tts := tts0\<lparr>filename := Some ''/tmp/tts.mp3'',
                        engine := be_hint\<lparr>tts_type := ''mp3''\<rparr>\<rparr>\<rparr>) = None
   \<and> endswith ''/tmp/tts.mp3'' ''mp3''
   \<and> exists fs0 (dirname ''/tmp/tts.mp3'') \<and> isdir fs0 (dirname ''/tmp/tts.mp3'')
   \<and> validate fs0
       (v0\<lparr>v_tts := tts0\<lparr>filename := Some ''/tmp/tts.mp3'',
                          engine := be_hint\<lparr>tts_type := ''mp3''\<rparr>\<rparr>\<rparr>)
      = Some (AttributeError ''file: /tmp/tts.mp3 must be in .wav format!'')"
  by (simp add: validate_def validate_instance_def validate_filename_def v0_def tts0_def
      endswith_def dirname_def rstrip_slash_def exists_def isdir_def fs0_def str_of_def Let_def)

text \<open>
  C6 (as amended): for every validator, \<open>validate\<close> runs its checks in this fixed order
  and raises the error of the first one that fails: the instance-type check
  (\<open>AttributeError\<close> naming the expected class), then the file-name check (the configured
  file name must be a string that ends in \<open>.wav\<close>, whatever the engine's type is, else
  \<open>AttributeError\<close> "must be in .wav format"; and its \<open>dirname\<close> must be an existing
  directory, else \<open>AttributeError\<close> "is not valid"), then the engine's language check,
  then the engine's connection check. \<open>validate\<close> only reads the instance and the file
  system: it returns nothing but the error, if any.
\<close>

theorem validate_order:
  "validate f v =
     (if get_tts_class v \<notin> set (classes (v_tts v))
      then Some (AttributeError (''tts must be instance of '' @ get_tts_class v))
      else case filename (v_tts v) of
             None \<Rightarrow> Some (AttributeError ''file: None must be in .wav format!'')
           | Some name \<Rightarrow>
               if \<not> endswith name ''.wav''
               then Some (AttributeError (''file: '' @ name @ '' must be in .wav format!''))
               else if \<not> isdir f (dirname name)
               then Some (AttributeError (''filename: '' @ name @ '' is not valid!''))
               else case validate_lang v (v_tts v) of
                      Some x \<Rightarrow> Some x
                    | None \<Rightarrow> validate_connection v (v_tts v))"
  by (auto simp: validate_def validate_instance_def validate_filename_def str_of_def Let_def
      endswith_nonempty isdir_exists split: option.splits)

text \<open>
  A well-formed instance passes; when both the language check and the connection check
  would fail, the error is the one of the language check.
\<close>

theorem validate_order_witness:
  "validate fs0 v0 = None
   \<and> validate fs0
       (v0\<lparr>validate_lang := (\<lambda>t. Some (BackendError ''unsupported language'')),
           validate_connection := (\<lambda>t. Some (BackendError ''unreachable''))\<rparr>)
      = Some (BackendError ''unsupported language'')"
  using validate_order [of fs0 v0]
    validate_order [of fs0
       "v0\<lparr>validate_lang := (\<lambda>t. Some (BackendError ''unsupported language'')),
           validate_connection := (\<lambda>t. Some (BackendError ''unreachable''))\<rparr>"]
  by (simp add: v0_def tts0_def endswith_def dirname_def rstrip_slash_def isdir_def fs0_def)

subsection \<open>The constructor\<close>

text \<open>
  C10: for every construction, the instance's language is \<open>'en-us'\<close> when the language
  argument is \<open>None\<close> or the empty string, and the argument itself otherwise.
\<close>

theorem tts_init_lang:
  "lang (fst (snd (tts_init b cls lang_arg voice_arg s))) =
     (if lang_arg = None \<or> lang_arg = Some [] then ''en-us'' else the lang_arg)"
  by (auto simp: tts_init_def or_default_def Let_def split: option.splits prod.splits)

text \<open>The three cases: no language, the empty string, and \<open>'de'\<close>.\<close>

theorem tts_init_lang_witness:
  "lang (fst (snd (tts_init be_hint [''Mimic'', ''TTS''] None None s0))) = ''en-us''
   \<and> lang (fst (snd (tts_init be_hint [''Mimic'', ''TTS''] (Some []) None s0))) = ''en-us''
   \<and> lang (fst (snd (tts_init be_hint [''Mimic'', ''TTS''] (Some ''de'') None s0))) = ''de''"
  using tts_init_lang [of be_hint "[''Mimic'', ''TTS'']" None None s0]
    tts_init_lang [of be_hint "[''Mimic'', ''TTS'']" "Some []" None s0]
    tts_init_lang [of be_hint "[''Mimic'', ''TTS'']" "Some ''de''" None s0]
  by simp

end
